theory Spec2Isabelle
  imports Main
begin

section \<open>Data model\<close>

text \<open>
  The client keeps two JSON objects it receives from the game server: the dungeon and the
  game state. Numbers are the integers of the wire format and are modelled as \<open>int\<close>;
  JavaScript arrays are lists. Coordinates that index an array are below \<open>2^32\<close>, where
  adding and subtracting one is exact; the counter \<open>moves\<close> has no such bound, and
  \<open>prev.moves + 1\<close> is the addition of doubles, \<open>js_add\<close> below. Every entity of the dungeon's catalogues is a JSON object
  of which the client reads the fields \<open>x\<close>, \<open>y\<close>, \<open>type\<close>, \<open>id\<close>, \<open>alive\<close> and
  \<open>locked\<close>; the fields carry the prefix \<open>e_\<close> here. The field \<open>id\<close> of the game state
  is \<open>game_id\<close>.
\<close>

record entity =
  e_x :: int
  e_y :: int
  e_type :: string
  e_id :: string
  e_alive :: bool
  e_locked :: bool

record dungeon =
  width :: int
  height :: int
  grid :: "int list list"
  theme :: string
  difficulty :: string
  treasures :: "entity list"
  enemies :: "entity list"
  traps :: "entity list"
  doors :: "entity list"
  chests :: "entity list"
  keys :: "entity list"

record item =
  item_name :: string
  item_emoji :: string

record game_state =
  game_id :: string
  player_x :: int
  player_y :: int
  discovered_tiles :: "bool list list"
  hero_class :: string
  hero_gender :: string
  player_hp :: int
  player_max_hp :: int
  player_attack :: int
  player_defense :: int
  player_magic :: int
  player_agility :: int
  player_level :: int
  moves :: int
  inventory :: "item list"
  collected_treasures :: "string list"
  opened_chests :: "string list"
  collected_keys :: "string list"
  in_combat :: bool

datatype js_error = TypeError

section \<open>JavaScript primitives\<close>

text \<open>
  \<open>xs[i]\<close> on an array: the element when \<open>i\<close> is an index of the array, \<open>undefined\<close>
  (here \<open>None\<close>) otherwise, also for a negative \<open>i\<close>.
\<close>

definition js_index :: "'a list \<Rightarrow> int \<Rightarrow> 'a option" where
  "js_index xs i = (if 0 \<le> i \<and> i < int (length xs) then Some (xs ! nat i) else None)"

text \<open>
  \<open>row[i] = true\<close> on an array of booleans, for an index \<open>i \<ge> 0\<close>: inside the array the
  element is overwritten; beyond its end JavaScript extends the array, and the holes it
  leaves read as \<open>undefined\<close>, which every reader of \<open>discovered_tiles\<close> tests for
  truthiness, so a hole is \<open>False\<close> here.
\<close>

definition set_index :: "bool list \<Rightarrow> nat \<Rightarrow> bool list" where
  "set_index row i =
     (if i < length row then row[i := True]
      else row @ replicate (i - length row) False @ [True])"

text \<open>
  \<open>String.prototype.toLowerCase\<close> on the ASCII letters; no other character is mapped to
  one of the letters the key names are compared with.
\<close>

definition toLowerCase :: "string \<Rightarrow> string" where
  "toLowerCase s =
     map (\<lambda>c. case map_of (zip ''ABCDEFGHIJKLMNOPQRSTUVWXYZ'' ''abcdefghijklmnopqrstuvwxyz'') c of
                 Some l \<Rightarrow> l | None \<Rightarrow> c) s"

text \<open>
  The sum of two numbers that hold integers: the exact sum rounded to the nearest double,
  a tie going to the double with the even significand. A double has 53 significant bits,
  so an integer of more than 53 bits is rounded to a multiple of the power of two \<open>u\<close>
  that the surplus bits give. \<open>bit_length\<close> is the number of bits of a positive integer.
  Adding one to a double never leaves the range of the doubles, so the sum has no
  overflow here.
\<close>

function bit_length :: "int \<Rightarrow> nat" where
  "bit_length n = (if n \<le> 0 then 0 else Suc (bit_length (n div 2)))"
  by pat_completeness auto
termination
  by (relation "measure nat") auto

declare bit_length.simps [simp del]

definition round_double :: "int \<Rightarrow> int" where
  "round_double n =
     (let a = \<bar>n\<bar>;
          u = 2 ^ (bit_length a - 53);
          q = a div u;
          r = a mod u;
          m = (if 2 * r < u \<or> (2 * r = u \<and> even q) then q * u else (q + 1) * u)
      in sgn n * m)"

definition js_add :: "int \<Rightarrow> int \<Rightarrow> int" where
  "js_add a b = round_double (a + b)"

section \<open>The local movement handler (first variant of the application)\<close>

text \<open>
  The \<open>switch\<close> of \<open>handleKeyPress\<close>: the candidate coordinates \<open>(newX, newY)\<close> for a key,
  or \<open>None\<close> for the \<open>default\<close> branch, which returns from the handler.
\<close>

definition candidate :: "dungeon \<Rightarrow> game_state \<Rightarrow> string \<Rightarrow> (int \<times> int) option" where
  "candidate d g key =
     (let newX = player_x g; newY = player_y g; k = toLowerCase key in
      if k = ''w'' \<or> k = ''arrowup'' then Some (newX, max 0 (newY - 1))
      else if k = ''s'' \<or> k = ''arrowdown'' then Some (newX, min (height d - 1) (newY + 1))
      else if k = ''a'' \<or> k = ''arrowleft'' then Some (max 0 (newX - 1), newY)
      else if k = ''d'' \<or> k = ''arrowright'' then Some (min (width d - 1) (newX + 1), newY)
      else None)"

text \<open>
  The two nested loops that reveal the tiles around \<open>(newX, newY)\<close>. The inner loop runs
  \<open>dx\<close> from its start value up to \<open>1\<close>, the outer loop does the same with \<open>dy\<close>.
  \<open>newDiscovered[checkY][checkX] = true\<close> throws a TypeError when \<open>newDiscovered\<close> has
  no row \<open>checkY\<close>. \<open>newDiscovered\<close> is a copy of the outer array only: its rows are the
  row objects of the current state, so the writes made before a throw stay in the state
  the application holds. \<open>Inl t\<close> is the throw, with the matrix \<open>t\<close> as written so far;
  \<open>Inr t\<close> is the normal end of the loop. The rows of a matrix are distinct arrays, as
  they are in a parsed JSON document, so a write to one row changes no other row.
\<close>

function reveal_dx ::
  "dungeon \<Rightarrow> int \<Rightarrow> int \<Rightarrow> int \<Rightarrow> int \<Rightarrow> bool list list \<Rightarrow> bool list list + bool list list"
where
  "reveal_dx d newX newY dy dx t =
     (if dx \<le> 1 then
        (let checkY = newY + dy; checkX = newX + dx in
         if checkY \<ge> 0 \<and> checkY < height d \<and> checkX \<ge> 0 \<and> checkX < width d then
           (case js_index t checkY of
              None \<Rightarrow> Inl t
            | Some row \<Rightarrow>
                reveal_dx d newX newY dy (dx + 1) (t[nat checkY := set_index row (nat checkX)]))
         else reveal_dx d newX newY dy (dx + 1) t)
      else Inr t)"
  by pat_completeness auto
termination
  by (relation "measure (\<lambda>(d, newX, newY, dy, dx, t). nat (2 - dx))") auto

function reveal_dy ::
  "dungeon \<Rightarrow> int \<Rightarrow> int \<Rightarrow> int \<Rightarrow> bool list list \<Rightarrow> bool list list + bool list list"
where
  "reveal_dy d newX newY dy t =
     (if dy \<le> 1 then
        (case reveal_dx d newX newY dy (- 1) t of
           Inl t' \<Rightarrow> Inl t'
         | Inr t' \<Rightarrow> reveal_dy d newX newY (dy + 1) t')
      else Inr t)"
  by pat_completeness auto
termination
  by (relation "measure (\<lambda>(d, newX, newY, dy, t). nat (2 - dy))") auto

declare reveal_dx.simps [simp del]
declare reveal_dy.simps [simp del]

text \<open>
  What one key press does to the game state. \<open>Returned s\<close>: the handler returned and the
  application holds the state \<open>s\<close>; \<open>Threw e s\<close>: the handler threw \<open>e\<close> and the
  application holds \<open>s\<close>. The state update of the successful move is applied to the state
  the handler read (\<open>prev\<close> is \<open>gameState\<close>); \<open>prev.moves + 1\<close> is the addition of
  doubles.
\<close>

datatype outcome = Returned "game_state option" | Threw js_error "game_state option"

definition handleKeyPress :: "dungeon option \<Rightarrow> game_state option \<Rightarrow> string \<Rightarrow> outcome" where
  "handleKeyPress dungeon gameState key =
     (case (gameState, dungeon) of
        (Some g, Some d) \<Rightarrow>
          (case candidate d g key of
             None \<Rightarrow> Returned gameState
           | Some (newX, newY) \<Rightarrow>
               (case js_index (grid d) newY of
                  None \<Rightarrow> Threw TypeError gameState
                | Some row \<Rightarrow>
                    if js_index row newX = Some 0 then
                      (case reveal_dy d newX newY (- 1) (discovered_tiles g) of
                         Inl t \<Rightarrow> Threw TypeError (Some (g\<lparr>discovered_tiles := t\<rparr>))
                       | Inr newDiscovered \<Rightarrow>
                           Returned (Some (g\<lparr>player_x := newX, player_y := newY,
                                              discovered_tiles := newDiscovered,
                                              moves := js_add (moves g) 1\<rparr>)))
                    else Returned gameState))
      | _ \<Rightarrow> Returned gameState)"

fun state_after :: "outcome \<Rightarrow> game_state option" where
  "state_after (Returned s) = s"
| "state_after (Threw e s) = s"

text \<open>
  A sequence of key presses, each handled on the state the previous one left.
\<close>

fun press_keys :: "dungeon option \<Rightarrow> game_state option \<Rightarrow> string list \<Rightarrow> game_state option" where
  "press_keys d s [] = s"
| "press_keys d s (k # ks) = press_keys d (state_after (handleKeyPress d s k)) ks"

text \<open>
  Whether the tile \<open>(x, y)\<close> of a discovery matrix is discovered: the truthiness of
  \<open>discovered_tiles[y][x]\<close>, and \<open>False\<close> for a tile the matrix does not have.
\<close>

definition discovered :: "bool list list \<Rightarrow> int \<Rightarrow> int \<Rightarrow> bool" where
  "discovered t x y =
     (case js_index t y of
        None \<Rightarrow> False
      | Some row \<Rightarrow> (case js_index row x of None \<Rightarrow> False | Some b \<Rightarrow> b))"

text \<open>
  The shape the server gives the two objects: the grid and the discovery matrix have
  \<open>height\<close> rows of \<open>width\<close> cells, and the player stands inside the grid.
\<close>

definition well_formed :: "dungeon \<Rightarrow> game_state \<Rightarrow> bool" where
  "well_formed d g \<longleftrightarrow>
     int (length (grid d)) = height d \<and>
     (\<forall>row \<in> set (grid d). int (length row) = width d) \<and>
     int (length (discovered_tiles g)) = height d \<and>
     (\<forall>row \<in> set (discovered_tiles g). int (length row) = width d) \<and>
     0 \<le> player_x g \<and> player_x g < width d \<and>
     0 \<le> player_y g \<and> player_y g < height d"

text \<open>The value \<open>grid[y][x]\<close> of a cell the grid has.\<close>

definition cell_at :: "dungeon \<Rightarrow> int \<Rightarrow> int \<Rightarrow> int option" where
  "cell_at d x y = (case js_index (grid d) y of None \<Rightarrow> None | Some row \<Rightarrow> js_index row x)"

text \<open>
  A key press against a boundary of the grid: left at \<open>x = 0\<close>, up at \<open>y = 0\<close>, right at
  \<open>x = width - 1\<close>, down at \<open>y = height - 1\<close>.
\<close>

definition against_boundary :: "dungeon \<Rightarrow> game_state \<Rightarrow> string \<Rightarrow> bool" where
  "against_boundary d g key =
     (let k = toLowerCase key in
      ((k = ''a'' \<or> k = ''arrowleft'') \<and> player_x g = 0) \<or>
      ((k = ''w'' \<or> k = ''arrowup'') \<and> player_y g = 0) \<or>
      ((k = ''d'' \<or> k = ''arrowright'') \<and> player_x g = width d - 1) \<or>
      ((k = ''s'' \<or> k = ''arrowdown'') \<and> player_y g = height d - 1))"

text \<open>The discovery matrix of the state the application holds; none without a state.\<close>

definition tiles_of :: "game_state option \<Rightarrow> bool list list" where
  "tiles_of s = (case s of None \<Rightarrow> [] | Some g \<Rightarrow> discovered_tiles g)"

section \<open>The remote movement and combat handlers (second variant of the application)\<close>

text \<open>
  The responses of the server. \<open>message\<close>, \<open>in_combat\<close> and \<open>combat_enemy\<close> of a move
  result are optional: an absent message or enemy is \<open>None\<close>, an absent \<open>in_combat\<close> is
  falsy. The fields \<open>in_combat\<close> of a move result and \<open>player_hp\<close> of a combat result
  carry the prefix \<open>result_\<close>.
\<close>

record move_result =
  success :: bool
  message :: "string option"
  result_in_combat :: bool
  combat_enemy :: "entity option"

record combat_result =
  combat_log :: "string list"
  combat_ended :: bool
  result_player_hp :: int
  player_defeated :: bool

text \<open>
  The three requests the handlers send, and the server as the answers it gives to them
  while one handler runs: \<open>None\<close> is a request that fails (the promise is rejected).
\<close>

datatype request =
  Post_move_player string string
| Get_game string
| Post_combat string string

record remote =
  post_move_player :: "string \<Rightarrow> string \<Rightarrow> move_result option"
  get_game :: "string \<Rightarrow> game_state option"
  post_combat :: "string \<Rightarrow> string \<Rightarrow> combat_result option"

text \<open>
  The state of the component that the handlers read and write. An entry of the combat
  log is a string, or \<open>undefined\<close> (\<open>None\<close>) when an absent message is appended.
\<close>

record client =
  gameState :: "game_state option"
  dungeon :: "dungeon option"
  combatLog :: "string option list"
  showInventory :: bool

text \<open>
  What running a handler to its end does: the state after it, the requests sent in order,
  the messages given to \<open>console.error\<close> by the \<open>catch\<close> block, and an error thrown
  outside the \<open>try\<close> block (by a state updater). A handler runs to its end before the
  next event is handled.
\<close>

record effect =
  after :: client
  sent :: "request list"
  console_error :: "string list"
  uncaught :: "js_error option"

definition no_effect :: "client \<Rightarrow> effect" where
  "no_effect c = \<lparr>after = c, sent = [], console_error = [], uncaught = None\<rparr>"

definition movePlayer :: "remote \<Rightarrow> client \<Rightarrow> string \<Rightarrow> effect" where
  "movePlayer r c direction =
     (case gameState c of
        None \<Rightarrow> no_effect c
      | Some g \<Rightarrow>
          if in_combat g then no_effect c
          else
            (case post_move_player r (game_id g) direction of
               None \<Rightarrow>
                 \<lparr>after = c, sent = [Post_move_player (game_id g) direction],
                  console_error = [''Error moving player:''], uncaught = None\<rparr>
             | Some result \<Rightarrow>
                 if success result then
                   (case get_game r (game_id g) of
                      None \<Rightarrow>
                        \<lparr>after = c,
                         sent = [Post_move_player (game_id g) direction, Get_game (game_id g)],
                         console_error = [''Error moving player:''], uncaught = None\<rparr>
                    | Some updatedState \<Rightarrow>
                        (let c1 = c\<lparr>gameState := Some updatedState\<rparr>;
                             c2 = (if message result \<noteq> None \<and> message result \<noteq> Some []
                                   then c1\<lparr>combatLog := combatLog c1 @ [message result]\<rparr>
                                   else c1);
                             rs = [Post_move_player (game_id g) direction, Get_game (game_id g)]
                         in if result_in_combat result then
                              (case combat_enemy result of
                                 None \<Rightarrow>
                                   \<lparr>after = c2, sent = rs, console_error = [],
                                    uncaught = Some TypeError\<rparr>
                               | Some enemy \<Rightarrow>
                                   \<lparr>after = c2\<lparr>combatLog := combatLog c2 @
                                       [Some (''Combat started with '' @ e_type enemy @ ''!'')]\<rparr>,
                                    sent = rs, console_error = [], uncaught = None\<rparr>)
                            else \<lparr>after = c2, sent = rs, console_error = [], uncaught = None\<rparr>))
                 else
                   \<lparr>after = c\<lparr>combatLog := combatLog c @ [message result]\<rparr>,
                    sent = [Post_move_player (game_id g) direction],
                    console_error = [], uncaught = None\<rparr>))"

text \<open>
  The last step of \<open>performCombatAction\<close>: the line appended to the log when the player
  is defeated.
\<close>

definition defeat_line :: "combat_result \<Rightarrow> client \<Rightarrow> client" where
  "defeat_line result c =
     (if player_defeated result
      then c\<lparr>combatLog := combatLog c @ [Some ''Game Over! Return to menu to start again.'']\<rparr>
      else c)"

definition performCombatAction :: "remote \<Rightarrow> client \<Rightarrow> string \<Rightarrow> effect" where
  "performCombatAction r c actionType =
     (case gameState c of
        None \<Rightarrow> no_effect c
      | Some g \<Rightarrow>
          if \<not> in_combat g then no_effect c
          else
            (case post_combat r (game_id g) actionType of
               None \<Rightarrow>
                 \<lparr>after = c, sent = [Post_combat (game_id g) actionType],
                  console_error = [''Error in combat:''], uncaught = None\<rparr>
             | Some result \<Rightarrow>
                 (let c1 = c\<lparr>combatLog := combatLog c @ map Some (combat_log result)\<rparr> in
                  if combat_ended result then
                    (case get_game r (game_id g) of
                       None \<Rightarrow>
                         \<lparr>after = c1,
                          sent = [Post_combat (game_id g) actionType, Get_game (game_id g)],
                          console_error = [''Error in combat:''], uncaught = None\<rparr>
                     | Some updatedState \<Rightarrow>
                         \<lparr>after = defeat_line result (c1\<lparr>gameState := Some updatedState\<rparr>),
                          sent = [Post_combat (game_id g) actionType, Get_game (game_id g)],
                          console_error = [], uncaught = None\<rparr>)
                  else
                    \<lparr>after = defeat_line result
                       (c1\<lparr>gameState := Some (g\<lparr>player_hp := result_player_hp result\<rparr>)\<rparr>),
                     sent = [Post_combat (game_id g) actionType],
                     console_error = [], uncaught = None\<rparr>)))"

text \<open>
  The key handler of the second variant. It starts \<open>movePlayer\<close> and
  \<open>performCombatAction\<close> without waiting for them; here they run to their end.
\<close>

definition handleKeyPress_remote :: "remote \<Rightarrow> client \<Rightarrow> string \<Rightarrow> effect" where
  "handleKeyPress_remote r c key =
     (case (gameState c, dungeon c) of
        (Some g, Some d) \<Rightarrow>
          (let k = toLowerCase key in
           if k = ''w'' \<or> k = ''arrowup'' then movePlayer r c ''up''
           else if k = ''s'' \<or> k = ''arrowdown'' then movePlayer r c ''down''
           else if k = ''a'' \<or> k = ''arrowleft'' then movePlayer r c ''left''
           else if k = ''d'' \<or> k = ''arrowright'' then movePlayer r c ''right''
           else if k = ''i'' then (no_effect c)\<lparr>after := c\<lparr>showInventory := \<not> showInventory c\<rparr>\<rparr>
           else if k = ''1'' then
             (if in_combat g then performCombatAction r c ''attack'' else no_effect c)
           else if k = ''2'' then
             (if in_combat g then performCombatAction r c ''flee'' else no_effect c)
           else no_effect c)
      | _ \<Rightarrow> no_effect c)"

section \<open>Choosing the glyph of a cell (second variant of the application)\<close>

text \<open>
  The hero roster maps a class and a gender to the data of a hero; the field \<open>emoji\<close> is
  \<open>hero_emoji\<close>, and so on. The emoji literals of the source are written by their Unicode
  names.
\<close>

record hero_data =
  hero_name :: string
  hero_emoji :: string
  hero_hp :: int
  hero_attack :: int
  hero_defense :: int
  hero_magic :: int
  hero_agility :: int
  hero_dice_count :: int
  hero_dice_sides :: int

type_synonym heroes = "string \<Rightarrow> (string \<Rightarrow> hero_data option) option"

text \<open>
  The six lookups \<open>dungeon.treasures.find(...)\<close> and so on that \<open>renderDungeon\<close> makes
  for the cell \<open>(x, y)\<close>: the first entity of the catalogue that the test accepts.
\<close>

definition treasure_at :: "dungeon \<Rightarrow> game_state \<Rightarrow> int \<Rightarrow> int \<Rightarrow> entity option" where
  "treasure_at d g x y =
     find (\<lambda>t. e_x t = x \<and> e_y t = y \<and> e_id t \<notin> set (collected_treasures g)) (treasures d)"

definition enemy_at :: "dungeon \<Rightarrow> int \<Rightarrow> int \<Rightarrow> entity option" where
  "enemy_at d x y = find (\<lambda>e. e_x e = x \<and> e_y e = y \<and> e_alive e) (enemies d)"

definition trap_at :: "dungeon \<Rightarrow> int \<Rightarrow> int \<Rightarrow> entity option" where
  "trap_at d x y = find (\<lambda>t. e_x t = x \<and> e_y t = y) (traps d)"

definition door_at :: "dungeon \<Rightarrow> int \<Rightarrow> int \<Rightarrow> entity option" where
  "door_at d x y = find (\<lambda>t. e_x t = x \<and> e_y t = y) (doors d)"

definition chest_at :: "dungeon \<Rightarrow> game_state \<Rightarrow> int \<Rightarrow> int \<Rightarrow> entity option" where
  "chest_at d g x y =
     find (\<lambda>c. e_x c = x \<and> e_y c = y \<and> e_id c \<notin> set (opened_chests g)) (chests d)"

definition key_at :: "dungeon \<Rightarrow> game_state \<Rightarrow> int \<Rightarrow> int \<Rightarrow> entity option" where
  "key_at d g x y =
     find (\<lambda>k. e_x k = x \<and> e_y k = y \<and> e_id k \<notin> set (collected_keys g)) (keys d)"

text \<open>
  The emoji that the callback of \<open>renderDungeon\<close> computes for the cell \<open>(x, y)\<close> with the
  grid value \<open>cell\<close> (the background colour is left out). Reading
  \<open>discovered_tiles[y][x]\<close> throws a TypeError when the matrix has no row \<open>y\<close>.
\<close>

definition render_cell ::
  "heroes \<Rightarrow> dungeon \<Rightarrow> game_state \<Rightarrow> int \<Rightarrow> int \<Rightarrow> int \<Rightarrow> js_error + string" where
  "render_cell heroes d g cell x y =
     (case js_index (discovered_tiles g) y of
        None \<Rightarrow> Inl TypeError
      | Some drow \<Rightarrow>
          (let isPlayer = (player_x g = x \<and> player_y g = y);
               isDiscovered = (js_index drow x = Some True);
               treasure = treasure_at d g x y;
               enemy = enemy_at d x y;
               trap = trap_at d x y;
               door = door_at d x y;
               chest = chest_at d g x y;
               key = key_at d g x y;
               emoji1 =
                 (if cell = 0 then ''''
                  else if cell = 2 then
                    (case door of
                       Some dr \<Rightarrow>
                         if isDiscovered then (if e_locked dr then ''DOOR'' else ''OPEN LOCK'')
                         else ''''
                     | None \<Rightarrow> '''')
                  else if cell = 3 then
                    (case chest of
                       Some c \<Rightarrow>
                         if isDiscovered
                         then (if e_locked c then ''PACKAGE'' else ''OPEN FILE FOLDER'')
                         else ''''
                     | None \<Rightarrow> '''')
                  else '''');
               emoji2 =
                 (if isPlayer then
                    (case heroes (hero_class g) of
                       None \<Rightarrow> ''MAGE''
                     | Some by_gender \<Rightarrow>
                         (case by_gender (hero_gender g) of
                            None \<Rightarrow> ''MAGE''
                          | Some heroData \<Rightarrow>
                              if hero_emoji heroData = '''' then ''MAGE''
                              else hero_emoji heroData))
                  else if isDiscovered \<and> cell \<noteq> 1 then
                    (case key of
                       Some k \<Rightarrow>
                         if e_type k = ''gold'' then ''LOCK WITH KEY''
                         else if e_type k = ''silver'' then ''KEY'' else ''OLD KEY''
                     | None \<Rightarrow>
                    (case treasure of
                       Some t \<Rightarrow>
                         if e_type t = ''gold'' then ''MONEY BAG''
                         else if e_type t = ''potion'' then ''TEST TUBE''
                         else if e_type t = ''weapon'' then ''CROSSED SWORDS'' else ''SHIELD''
                     | None \<Rightarrow>
                    (case enemy of
                       Some e \<Rightarrow>
                         if e_type e = ''goblin'' then ''OGRE''
                         else if e_type e = ''orc'' then ''GOBLIN''
                         else if e_type e = ''skeleton'' then ''SKULL''
                         else if e_type e = ''spider'' then ''SPIDER'' else ''RAT''
                     | None \<Rightarrow>
                    (case trap of Some tr \<Rightarrow> ''WARNING'' | None \<Rightarrow> emoji1))))
                  else emoji1)
           in Inr (if \<not> isDiscovered \<and> \<not> isPlayer then '''' else emoji2)))"

text \<open>
  \<open>renderDungeon\<close> applies the callback to every cell of the grid, row by row, with the
  indices of the cell; it renders nothing without a dungeon or a game state. A throw of
  the callback is kept as the entry of its cell.
\<close>

definition renderDungeon ::
  "heroes \<Rightarrow> dungeon option \<Rightarrow> game_state option \<Rightarrow> (js_error + string) list list option" where
  "renderDungeon heroes dng gst =
     (case (dng, gst) of
        (Some d, Some g) \<Rightarrow>
          Some (map (\<lambda>(y, row). map (\<lambda>(x, cell). render_cell heroes d g cell (int x) (int y))
                                   (enumerate 0 row))
                    (enumerate 0 (grid d)))
      | _ \<Rightarrow> None)"

text \<open>
  The dungeon with the consumed entities taken out of its catalogues: the treasures, chests
  and keys whose identifier is in \<open>collected_treasures\<close>, \<open>opened_chests\<close> or
  \<open>collected_keys\<close>.
\<close>

definition without_consumed :: "dungeon \<Rightarrow> game_state \<Rightarrow> dungeon" where
  "without_consumed d g =
     d\<lparr>treasures := filter (\<lambda>t. e_id t \<notin> set (collected_treasures g)) (treasures d),
       chests := filter (\<lambda>c. e_id c \<notin> set (opened_chests g)) (chests d),
       keys := filter (\<lambda>k. e_id k \<notin> set (collected_keys g)) (keys d)\<rparr>"

section \<open>Example data\<close>

text \<open>
  A 5 by 5 dungeon of floor cells and a fresh game with the player at \<open>(2, 2)\<close> and
  nothing discovered; the same dungeon with a wall at \<open>(3, 2)\<close>.
\<close>

definition floor5 :: dungeon where
  "floor5 =
     \<lparr>width = 5, height = 5,
      grid = [[0, 0, 0, 0, 0], [0, 0, 0, 0, 0], [0, 0, 0, 0, 0],
              [0, 0, 0, 0, 0], [0, 0, 0, 0, 0]],
      theme = ''cave'', difficulty = ''easy'',
      treasures = [], enemies = [], traps = [], doors = [], chests = [], keys = []\<rparr>"

definition wall5 :: dungeon where
  "wall5 = floor5\<lparr>grid := [[0, 0, 0, 0, 0], [0, 0, 0, 0, 0], [0, 0, 0, 1, 0],
                            [0, 0, 0, 0, 0], [0, 0, 0, 0, 0]]\<rparr>"

definition fog5 :: game_state where
  "fog5 =
     \<lparr>game_id = ''g1'', player_x = 2, player_y = 2,
      discovered_tiles =
        [[False, False, False, False, False], [False, False, False, False, False],
         [False, False, False, False, False], [False, False, False, False, False],
         [False, False, False, False, False]],
      hero_class = ''wizard'', hero_gender = ''male'',
      player_hp = 100, player_max_hp = 100, player_attack = 10, player_defense = 5,
      player_magic = 8, player_agility = 6, player_level = 1, moves = 0,
      inventory = [], collected_treasures = [], opened_chests = [], collected_keys = [],
      in_combat = False\<rparr>"

text \<open>
  A gold treasure and a silver key on the cell \<open>(3, 2)\<close>, both already collected, and a
  potion on the same cell that is not.
\<close>

definition gold32 :: entity where
  "gold32 = \<lparr>e_x = 3, e_y = 2, e_type = ''gold'', e_id = ''t1'', e_alive = False,
             e_locked = False\<rparr>"

definition potion32 :: entity where
  "potion32 = gold32\<lparr>e_type := ''potion'', e_id := ''t2''\<rparr>"

definition silver32 :: entity where
  "silver32 = gold32\<lparr>e_type := ''silver'', e_id := ''k1''\<rparr>"

definition loot5 :: dungeon where
  "loot5 = floor5\<lparr>treasures := [gold32, potion32], keys := [silver32]\<rparr>"

definition looted5 :: game_state where
  "looted5 =
     fog5\<lparr>discovered_tiles :=
            [[False, False, False, False, False], [False, True, True, True, False],
             [False, True, True, True, False], [False, True, True, True, False],
             [False, False, False, False, False]],
          collected_treasures := [''t1''], collected_keys := [''k1'']\<rparr>"

text \<open>
  A client in combat, a server that answers an attack with the defeat of the player and
  the end of the combat and then serves a game that is no longer in combat, and a server
  whose every request fails.
\<close>

definition fighting :: client where
  "fighting =
     \<lparr>gameState = Some (fog5\<lparr>in_combat := True\<rparr>), dungeon = Some floor5,
      combatLog = [], showInventory = False\<rparr>"

definition exploring :: client where
  "exploring = fighting\<lparr>gameState := Some fog5\<rparr>"

definition defeat_server :: remote where
  "defeat_server =
     \<lparr>post_move_player = (\<lambda>i dir. Some \<lparr>success = True, message = None,
                                          result_in_combat = False, combat_enemy = None\<rparr>),
      get_game = (\<lambda>i. Some (fog5\<lparr>player_hp := 0\<rparr>)),
      post_combat = (\<lambda>i a. Some \<lparr>combat_log = [''You were slain''], combat_ended = True,
                                   result_player_hp = 0, player_defeated = True\<rparr>)\<rparr>"

definition hit_server :: remote where
  "hit_server =
     defeat_server\<lparr>post_combat :=
       (\<lambda>i a. Some \<lparr>combat_log = [''You hit''], combat_ended = False,
                     result_player_hp = 42, player_defeated = False\<rparr>)\<rparr>"

definition dead_server :: remote where
  "dead_server =
     \<lparr>post_move_player = (\<lambda>i dir. None), get_game = (\<lambda>i. None),
      post_combat = (\<lambda>i a. None)\<rparr>"

definition half_dead_server :: remote where
  "half_dead_server = defeat_server\<lparr>get_game := (\<lambda>i. None)\<rparr>"

text \<open>
  The game after the key \<open>d\<close> is pressed in \<open>fog5\<close>; a game with the player at the left
  boundary, and that game after the key \<open>a\<close> is pressed; a server that reports the defeat
  of the player while the combat goes on.
\<close>

definition moved5 :: game_state where
  "moved5 =
     fog5\<lparr>player_x := 3,
          discovered_tiles :=
            [[False, False, False, False, False], [False, False, True, True, True],
             [False, False, True, True, True], [False, False, True, True, True],
             [False, False, False, False, False]],
          moves := 1\<rparr>"

definition west5 :: game_state where
  "west5 = fog5\<lparr>player_x := 0\<rparr>"

definition west5_pressed :: game_state where
  "west5_pressed =
     west5\<lparr>discovered_tiles :=
             [[False, False, False, False, False], [True, True, False, False, False],
              [True, True, False, False, False], [True, True, False, False, False],
              [False, False, False, False, False]],
           moves := 1\<rparr>"

definition undead_server :: remote where
  "undead_server =
     defeat_server\<lparr>post_combat :=
       (\<lambda>i a. Some \<lparr>combat_log = [''You were slain''], combat_ended = False,
                     result_player_hp = 0, player_defeated = True\<rparr>)\<rparr>"

text \<open>
  A server that accepts a move and reports a combat without naming the enemy, and a server
  that refuses a move without a message.
\<close>

definition malformed_server :: remote where
  "malformed_server =
     \<lparr>post_move_player = (\<lambda>i dir. Some \<lparr>success = True, message = None,
                                          result_in_combat = True, combat_enemy = None\<rparr>),
      get_game = (\<lambda>i. Some moved5),
      post_combat = (\<lambda>i a. None)\<rparr>"

definition mute_server :: remote where
  "mute_server =
     malformed_server\<lparr>post_move_player :=
       (\<lambda>i dir. Some \<lparr>success = False, message = None,
                       result_in_combat = False, combat_enemy = None\<rparr>)\<rparr>"

section \<open>Facts about the addition of doubles\<close>

text \<open>
  The sum is exact as long as it needs no more than 53 bits, and \<open>2^53 + 1\<close> is
  \<open>2^53\<close>.
\<close>

lemma bit_length_le: "n < 2 ^ k \<Longrightarrow> bit_length n \<le> k"
proof (induction k arbitrary: n)
  case 0
  then show ?case by (simp add: bit_length.simps [of n])
next
  case (Suc k)
  show ?case
  proof (cases "n \<le> 0")
    case True
    then show ?thesis by (simp add: bit_length.simps [of n])
  next
    case False
    from Suc.prems have "n div 2 < 2 ^ k" by simp
    from Suc.IH [OF this] False show ?thesis by (simp add: bit_length.simps [of n])
  qed
qed

lemma round_double_small:
  assumes "\<bar>n\<bar> < 2 ^ 53"
  shows "round_double n = n"
proof -
  from bit_length_le [OF assms] have "bit_length \<bar>n\<bar> - 53 = 0" by simp
  then show ?thesis by (simp add: round_double_def Let_def sgn_if)
qed

lemma bit_length_limit: "bit_length (2 ^ 53) = 54"
  by code_simp

lemma round_double_exact:
  assumes "\<bar>n\<bar> \<le> 2 ^ 53"
  shows "round_double n = n"
proof (cases "\<bar>n\<bar> < 2 ^ 53")
  case True
  then show ?thesis by (rule round_double_small)
next
  case False
  with assms have a: "\<bar>n\<bar> = 2 ^ 53" by simp
  have "round_double n = sgn n * \<bar>n\<bar>"
    unfolding round_double_def Let_def a bit_length_limit by simp
  then show ?thesis by (simp add: sgn_if)
qed

lemma js_add_one:
  "- (2 ^ 53) \<le> m \<Longrightarrow> m < 2 ^ 53 \<Longrightarrow> js_add m 1 = m + 1"
  unfolding js_add_def by (rule round_double_exact) simp

lemma js_add_one_at_limit: "js_add (2 ^ 53) 1 = 2 ^ 53"
  by code_simp

section \<open>Facts about the discovery matrix\<close>

text \<open>Reading a tile after one write, and what the two loops write.\<close>

lemma discovered_iff:
  "discovered t x y \<longleftrightarrow>
     0 \<le> y \<and> y < int (length t) \<and> 0 \<le> x \<and> x < int (length (t ! nat y)) \<and> t ! nat y ! nat x"
  by (auto simp: discovered_def js_index_def)

lemma set_index_read:
  assumes "0 \<le> cx"
  shows "(0 \<le> x \<and> x < int (length (set_index row (nat cx))) \<and> set_index row (nat cx) ! nat x)
         \<longleftrightarrow> ((0 \<le> x \<and> x < int (length row) \<and> row ! nat x) \<or> x = cx)"
proof (cases "nat cx < length row")
  case True
  then have "set_index row (nat cx) = row[nat cx := True]" by (simp add: set_index_def)
  with True assms show ?thesis by (auto simp: nth_list_update)
next
  case False
  then have eq: "set_index row (nat cx) = row @ replicate (nat cx - length row) False @ [True]"
    by (simp add: set_index_def)
  have len: "length (set_index row (nat cx)) = nat cx + 1" using False by (simp add: eq)
  show ?thesis
  proof (cases "x = cx")
    case True
    then show ?thesis using assms False len by (simp add: eq nth_append)
  next
    case False
    note neq = this
    show ?thesis
    proof (cases "0 \<le> x \<and> x < int (length row)")
      case True
      then show ?thesis using neq len assms \<open>\<not> nat cx < length row\<close> by (auto simp: eq nth_append)
    next
      case False
      then show ?thesis using neq len assms \<open>\<not> nat cx < length row\<close>
        by (auto simp: eq nth_append nth_Cons')
    qed
  qed
qed

lemma discovered_write:
  assumes "js_index t cy = Some row" and "0 \<le> cx"
  shows "discovered (t[nat cy := set_index row (nat cx)]) x y
           = (discovered t x y \<or> (x = cx \<and> y = cy))"
proof -
  from assms(1) have cy: "0 \<le> cy" "cy < int (length t)" and row: "row = t ! nat cy"
    by (auto simp: js_index_def split: if_splits)
  show ?thesis
  proof (cases "y = cy")
    case True
    have "(t[nat cy := set_index row (nat cx)]) ! nat cy = set_index row (nat cx)"
      using cy by simp
    then show ?thesis
      using True cy row set_index_read [OF assms(2), of x row]
      by (simp add: discovered_iff)
  next
    case False
    show ?thesis
    proof (cases "0 \<le> y \<and> y < int (length t)")
      case True
      with False cy have "nat y \<noteq> nat cy" by linarith
      then show ?thesis using False by (simp add: discovered_iff)
    next
      case False
      then show ?thesis using \<open>y \<noteq> cy\<close> by (auto simp: discovered_iff)
    qed
  qed
qed


lemma reveal_dx_Inr:
  "reveal_dx d nx ny dy dx t = Inr t' \<Longrightarrow>
   discovered t' x y =
     (discovered t x y \<or>
      (y = ny + dy \<and> 0 \<le> y \<and> y < height d \<and> nx + dx \<le> x \<and> x \<le> nx + 1 \<and> 0 \<le> x \<and> x < width d))"
proof (induction d nx ny dy dx t rule: reveal_dx.induct)
  case (1 d newX newY dy dx t)
  show ?case
  proof (cases "dx \<le> 1")
    case False
    with "1.prems" show ?thesis by (auto simp: reveal_dx.simps [of d newX newY dy dx t])
  next
    case le: True
    show ?thesis
    proof (cases "newY + dy \<ge> 0 \<and> newY + dy < height d \<and> newX + dx \<ge> 0 \<and> newX + dx < width d")
      case False
      with le "1.prems" have "reveal_dx d newX newY dy (dx + 1) t = Inr t'"
        by (simp add: reveal_dx.simps [of d newX newY dy dx t] Let_def)
      from "1.IH"(2) [OF le refl refl False this] False le show ?thesis by auto
    next
      case inb: True
      show ?thesis
      proof (cases "js_index t (newY + dy)")
        case None
        with le inb "1.prems" show ?thesis
          by (simp add: reveal_dx.simps [of d newX newY dy dx t] Let_def)
      next
        case (Some row)
        with le inb "1.prems"
        have "reveal_dx d newX newY dy (dx + 1) (t[nat (newY + dy) := set_index row (nat (newX + dx))]) = Inr t'"
          by (simp add: reveal_dx.simps [of d newX newY dy dx t] Let_def)
        from "1.IH"(1) [OF le refl refl inb Some this] inb le
          discovered_write [OF Some, of "newX + dx" x y]
        show ?thesis by auto
      qed
    qed
  qed
qed

lemma reveal_dx_Inl:
  "reveal_dx d nx ny dy dx t = Inl t' \<Longrightarrow> discovered t x y \<Longrightarrow> discovered t' x y"
proof (induction d nx ny dy dx t rule: reveal_dx.induct)
  case (1 d newX newY dy dx t)
  show ?case
  proof (cases "dx \<le> 1")
    case False
    with "1.prems" show ?thesis by (simp add: reveal_dx.simps [of d newX newY dy dx t])
  next
    case le: True
    show ?thesis
    proof (cases "newY + dy \<ge> 0 \<and> newY + dy < height d \<and> newX + dx \<ge> 0 \<and> newX + dx < width d")
      case False
      with le "1.prems" have "reveal_dx d newX newY dy (dx + 1) t = Inl t'"
        by (simp add: reveal_dx.simps [of d newX newY dy dx t] Let_def)
      from "1.IH"(2) [OF le refl refl False this] "1.prems"(2) show ?thesis by simp
    next
      case inb: True
      show ?thesis
      proof (cases "js_index t (newY + dy)")
        case None
        with le inb "1.prems" show ?thesis
          by (simp add: reveal_dx.simps [of d newX newY dy dx t] Let_def)
      next
        case (Some row)
        with le inb "1.prems"
        have "reveal_dx d newX newY dy (dx + 1) (t[nat (newY + dy) := set_index row (nat (newX + dx))]) = Inl t'"
          by (simp add: reveal_dx.simps [of d newX newY dy dx t] Let_def)
        moreover have "discovered (t[nat (newY + dy) := set_index row (nat (newX + dx))]) x y"
          using discovered_write [OF Some, of "newX + dx" x y] inb "1.prems"(2) by simp
        ultimately show ?thesis by (rule "1.IH"(1) [OF le refl refl inb Some])
      qed
    qed
  qed
qed

lemma reveal_dx_total:
  "height d \<le> int (length t) \<Longrightarrow>
   \<exists>t'. reveal_dx d nx ny dy dx t = Inr t' \<and> length t' = length t"
proof (induction d nx ny dy dx t rule: reveal_dx.induct)
  case (1 d newX newY dy dx t)
  show ?case
  proof (cases "dx \<le> 1")
    case False
    then show ?thesis by (simp add: reveal_dx.simps [of d newX newY dy dx t])
  next
    case le: True
    show ?thesis
    proof (cases "newY + dy \<ge> 0 \<and> newY + dy < height d \<and> newX + dx \<ge> 0 \<and> newX + dx < width d")
      case False
      from "1.IH"(2) [OF le refl refl False "1.prems"] False le show ?thesis
        by (auto simp: reveal_dx.simps [of d newX newY dy dx t] Let_def)
    next
      case inb: True
      with "1.prems" obtain row where row: "js_index t (newY + dy) = Some row"
        by (auto simp: js_index_def)
      have "height d \<le> int (length (t[nat (newY + dy) := set_index row (nat (newX + dx))]))"
        using "1.prems" by simp
      from "1.IH"(1) [OF le refl refl inb row this] inb le row show ?thesis
        by (simp add: reveal_dx.simps [of d newX newY dy dx t] Let_def)
    qed
  qed
qed

lemma reveal_dy_Inr:
  "reveal_dy d nx ny dy t = Inr t' \<Longrightarrow>
   discovered t' x y =
     (discovered t x y \<or>
      (ny + dy \<le> y \<and> y \<le> ny + 1 \<and> 0 \<le> y \<and> y < height d \<and>
       nx - 1 \<le> x \<and> x \<le> nx + 1 \<and> 0 \<le> x \<and> x < width d))"
proof (induction d nx ny dy t rule: reveal_dy.induct)
  case (1 d newX newY dy t)
  show ?case
  proof (cases "dy \<le> 1")
    case False
    with "1.prems" show ?thesis by (auto simp: reveal_dy.simps [of d newX newY dy t])
  next
    case le: True
    with "1.prems" obtain t1 where
      t1: "reveal_dx d newX newY dy (- 1) t = Inr t1" and
      rest: "reveal_dy d newX newY (dy + 1) t1 = Inr t'"
      by (auto simp: reveal_dy.simps [of d newX newY dy t] split: sum.splits)
    from "1.IH" [OF le t1 rest] reveal_dx_Inr [OF t1, of x y] le
    show ?thesis by auto
  qed
qed

lemma reveal_dy_Inl:
  "reveal_dy d nx ny dy t = Inl t' \<Longrightarrow> discovered t x y \<Longrightarrow> discovered t' x y"
proof (induction d nx ny dy t rule: reveal_dy.induct)
  case (1 d newX newY dy t)
  show ?case
  proof (cases "dy \<le> 1")
    case False
    with "1.prems" show ?thesis by (simp add: reveal_dy.simps [of d newX newY dy t])
  next
    case le: True
    show ?thesis
    proof (cases "reveal_dx d newX newY dy (- 1) t")
      case (Inl t1)
      with le "1.prems"(1) have "t1 = t'"
        by (simp add: reveal_dy.simps [of d newX newY dy t])
      with Inl "1.prems"(2) show ?thesis by (auto dest: reveal_dx_Inl)
    next
      case (Inr t1)
      with le "1.prems"(1) have rest: "reveal_dy d newX newY (dy + 1) t1 = Inl t'"
        by (simp add: reveal_dy.simps [of d newX newY dy t])
      have "discovered t1 x y" using reveal_dx_Inr [OF Inr, of x y] "1.prems"(2) by simp
      with "1.IH" [OF le Inr rest] show ?thesis by simp
    qed
  qed
qed

lemma reveal_dy_total:
  "height d \<le> int (length t) \<Longrightarrow>
   \<exists>t'. reveal_dy d nx ny dy t = Inr t' \<and> length t' = length t"
proof (induction d nx ny dy t rule: reveal_dy.induct)
  case (1 d newX newY dy t)
  show ?case
  proof (cases "dy \<le> 1")
    case False
    then show ?thesis by (simp add: reveal_dy.simps [of d newX newY dy t])
  next
    case le: True
    from reveal_dx_total [OF "1.prems", of newX newY dy "- 1"] obtain t1 where
      t1: "reveal_dx d newX newY dy (- 1) t = Inr t1" and len: "length t1 = length t"
      by blast
    from "1.prems" len have "height d \<le> int (length t1)" by simp
    from "1.IH" [OF le t1 this] t1 len le show ?thesis
      by (simp add: reveal_dy.simps [of d newX newY dy t])
  qed
qed

lemma handleKeyPress_floor:
  assumes "candidate d g key = Some (nx, ny)" and "cell_at d nx ny = Some 0"
  shows "handleKeyPress (Some d) (Some g) key =
      (case reveal_dy d nx ny (- 1) (discovered_tiles g) of
         Inl t \<Rightarrow> Threw TypeError (Some (g\<lparr>discovered_tiles := t\<rparr>))
       | Inr newDiscovered \<Rightarrow>
           Returned (Some (g\<lparr>player_x := nx, player_y := ny,
                              discovered_tiles := newDiscovered,
                              moves := js_add (moves g) 1\<rparr>)))"
proof -
  from assms(2) obtain row where "js_index (grid d) ny = Some row" "js_index row nx = Some 0"
    by (auto simp: cell_at_def split: option.splits)
  with assms(1) show ?thesis by (simp add: handleKeyPress_def)
qed

lemma handleKeyPress_blocked:
  assumes "candidate d g key = Some (nx, ny)" and "cell_at d nx ny = Some v" and "v \<noteq> 0"
  shows "handleKeyPress (Some d) (Some g) key = Returned (Some g)"
proof -
  from assms(2) obtain row where "js_index (grid d) ny = Some row" "js_index row nx = Some v"
    by (auto simp: cell_at_def split: option.splits)
  with assms(1,3) show ?thesis by (simp add: handleKeyPress_def)
qed

lemma near_iff:
  fixes x y :: int
  shows "(ny + - 1 \<le> y \<and> y \<le> ny + 1 \<and> 0 \<le> y \<and> y < h \<and>
       nx - 1 \<le> x \<and> x \<le> nx + 1 \<and> 0 \<le> x \<and> x < w) \<longleftrightarrow>
      (\<exists>dx \<in> {- 1, 0, 1}. \<exists>dy \<in> {- 1, 0, 1}.
                  x = nx + dx \<and> y = ny + dy \<and>
                  0 \<le> y \<and> y < h \<and> 0 \<le> x \<and> x < w)"
proof -
  have a: "(ny + - 1 \<le> y \<and> y \<le> ny + 1) \<longleftrightarrow> (y = ny + - 1 \<or> y = ny + 0 \<or> y = ny + 1)" by arith
  have b: "(nx - 1 \<le> x \<and> x \<le> nx + 1) \<longleftrightarrow> (x = nx + - 1 \<or> x = nx + 0 \<or> x = nx + 1)" by arith
  show ?thesis using a b by auto
qed

lemma reveal_around:
  assumes "reveal_dy d nx ny (- 1) t = Inr t'"
  shows "discovered t' x y \<longleftrightarrow> discovered t x y \<or>
               (\<exists>dx \<in> {- 1, 0, 1}. \<exists>dy \<in> {- 1, 0, 1}.
                  x = nx + dx \<and> y = ny + dy \<and>
                  0 \<le> y \<and> y < height d \<and> 0 \<le> x \<and> x < width d)"
  unfolding reveal_dy_Inr [OF assms, of x y] near_iff [of ny y "height d" nx x "width d"] ..

section \<open>The local movement handler: discovery\<close>

text \<open>
  Claim C1. A successful move is a key press whose candidate cell \<open>(nx, ny)\<close> is a floor
  cell of the grid. When the discovery matrix has a row for every row of the grid the
  handler returns, and whenever it returns the player stands on \<open>(nx, ny)\<close> and a tile is
  discovered afterwards exactly when it was discovered before or is one of the cells
  \<open>(nx + dx, ny + dy)\<close> with \<open>dx\<close> and \<open>dy\<close> in \<open>{-1, 0, 1}\<close> that lie inside the
  bounds \<open>width\<close> and \<open>height\<close>: no other tile changes.
\<close>

theorem move_reveals_neighbourhood:
  assumes "candidate d g key = Some (nx, ny)" and "cell_at d nx ny = Some 0"
  shows "(height d \<le> int (length (discovered_tiles g)) \<longrightarrow>
            (\<exists>g'. handleKeyPress (Some d) (Some g) key = Returned (Some g'))) \<and>
         (\<forall>g'. handleKeyPress (Some d) (Some g) key = Returned (Some g') \<longrightarrow>
            player_x g' = nx \<and> player_y g' = ny \<and>
            (\<forall>x y. discovered (discovered_tiles g') x y \<longleftrightarrow>
               discovered (discovered_tiles g) x y \<or>
               (\<exists>dx \<in> {- 1, 0, 1}. \<exists>dy \<in> {- 1, 0, 1}.
                  x = nx + dx \<and> y = ny + dy \<and>
                  0 \<le> y \<and> y < height d \<and> 0 \<le> x \<and> x < width d)))"
proof (intro conjI impI allI)
  note hk = handleKeyPress_floor [OF assms]
  {
    assume "height d \<le> int (length (discovered_tiles g))"
    from reveal_dy_total [OF this, of nx ny "- 1"] obtain t' where
      "reveal_dy d nx ny (- 1) (discovered_tiles g) = Inr t'" by blast
    then show "\<exists>g'. handleKeyPress (Some d) (Some g) key = Returned (Some g')"
      by (simp add: hk)
  }
  fix g'
  assume ret: "handleKeyPress (Some d) (Some g) key = Returned (Some g')"
  with hk obtain t' where
    t': "reveal_dy d nx ny (- 1) (discovered_tiles g) = Inr t'" and
    g': "g' = g\<lparr>player_x := nx, player_y := ny, discovered_tiles := t',
                moves := js_add (moves g) 1\<rparr>"
    by (auto split: sum.splits)
  show "player_x g' = nx" "player_y g' = ny" by (simp_all add: g')
  fix x y
  show "discovered (discovered_tiles g') x y \<longleftrightarrow>
               discovered (discovered_tiles g) x y \<or>
               (\<exists>dx \<in> {- 1, 0, 1}. \<exists>dy \<in> {- 1, 0, 1}.
                  x = nx + dx \<and> y = ny + dy \<and>
                  0 \<le> y \<and> y < height d \<and> 0 \<le> x \<and> x < width d)"
    using reveal_around [OF t', of x y] by (simp add: g')
qed

theorem move_reveals_neighbourhood_witness:
  "candidate floor5 fog5 ''d'' = Some (3, 2) \<and> cell_at floor5 3 2 = Some 0 \<and>
   handleKeyPress (Some floor5) (Some fog5) ''d'' = Returned (Some moved5) \<and>
   player_x moved5 = 3 \<and> player_y moved5 = 2 \<and>
   discovered (discovered_tiles moved5) 4 3 = True \<and>
   discovered (discovered_tiles moved5) 1 2 = False"
proof -
  have c: "candidate floor5 fog5 ''d'' = Some (3, 2)" by code_simp
  have f: "cell_at floor5 3 2 = Some 0" by code_simp
  have r: "handleKeyPress (Some floor5) (Some fog5) ''d'' = Returned (Some moved5)" by code_simp
  have old: "discovered (discovered_tiles fog5) 4 3 = False"
     "discovered (discovered_tiles fog5) 1 2 = False" by code_simp+
  from move_reveals_neighbourhood [OF c f] r
  have *: "player_x moved5 = 3 \<and> player_y moved5 = 2 \<and>
     (\<forall>x y. discovered (discovered_tiles moved5) x y \<longleftrightarrow>
               discovered (discovered_tiles fog5) x y \<or>
               (\<exists>dx \<in> {- 1, 0, 1}. \<exists>dy \<in> {- 1, 0, 1}.
                  x = 3 + dx \<and> y = 2 + dy \<and>
                  0 \<le> y \<and> y < height floor5 \<and> 0 \<le> x \<and> x < width floor5))"
    by blast
  have "discovered (discovered_tiles moved5) 4 3 = True"
    using * old by (simp add: floor5_def)
  moreover have "discovered (discovered_tiles moved5) 1 2 = False"
    using * old by (simp add: floor5_def)
  ultimately show ?thesis using c f r * by simp
qed

lemma handleKeyPress_mono:
  assumes "discovered (tiles_of s) x y"
  shows "discovered (tiles_of (state_after (handleKeyPress d s k))) x y"
proof (cases s)
  case None
  then show ?thesis using assms by (simp add: handleKeyPress_def tiles_of_def)
next
  case sg: (Some g)
  show ?thesis
  proof (cases d)
    case None
    then show ?thesis using assms sg by (simp add: handleKeyPress_def tiles_of_def)
  next
    case (Some dd)
    show ?thesis
    proof (cases "candidate dd g k")
      case None
      then show ?thesis using assms sg Some by (simp add: handleKeyPress_def tiles_of_def)
    next
      case cand: (Some p)
      obtain nx ny where p: "p = (nx, ny)" by (cases p)
      show ?thesis
      proof (cases "js_index (grid dd) ny")
        case None
        then show ?thesis using assms sg Some cand p
          by (simp add: handleKeyPress_def tiles_of_def)
      next
        case row: (Some row)
        show ?thesis
        proof (cases "js_index row nx = Some 0")
          case False
          then show ?thesis using assms sg Some cand p row
            by (simp add: handleKeyPress_def tiles_of_def)
        next
          case True
          with row have "cell_at dd nx ny = Some 0" by (simp add: cell_at_def)
          note hk = handleKeyPress_floor [OF cand [unfolded p] this]
          from assms sg have old: "discovered (discovered_tiles g) x y"
            by (simp add: tiles_of_def)
          show ?thesis
          proof (cases "reveal_dy dd nx ny (- 1) (discovered_tiles g)")
            case (Inl t)
            from reveal_dy_Inl [OF Inl old] show ?thesis
              using sg Some hk Inl by (simp add: tiles_of_def)
          next
            case (Inr t)
            from reveal_dy_Inr [OF Inr, of x y] old show ?thesis
              using sg Some hk Inr by (simp add: tiles_of_def)
          qed
        qed
      qed
    qed
  qed
qed

lemma press_keys_snoc:
  "press_keys d s (ks @ [k]) = state_after (handleKeyPress d (press_keys d s ks) k)"
  by (induction ks arbitrary: s) simp_all

text \<open>
  Claim C2. Along every sequence of key presses, from every state and with every dungeon, a
  tile that is discovered after the first \<open>n - 1\<close> key presses is discovered after the
  \<open>n\<close>-th too, whether the \<open>n\<close>-th press moves the player, is refused, or throws.
\<close>

theorem discovery_monotone:
  "discovered (tiles_of (press_keys d s ks)) x y \<Longrightarrow>
   discovered (tiles_of (press_keys d s (ks @ [k]))) x y"
  by (simp add: press_keys_snoc handleKeyPress_mono)

theorem discovery_monotone_witness:
  "discovered (tiles_of (press_keys (Some floor5) (Some fog5) [''d''])) 3 2 \<and>
   discovered (tiles_of (press_keys (Some floor5) (Some fog5) ([''d''] @ [''s'']))) 3 2"
proof -
  have h: "discovered (tiles_of (press_keys (Some floor5) (Some fog5) [''d''])) 3 2"
    by code_simp
  from discovery_monotone [OF h, of "''s''"] h show ?thesis by simp
qed


lemma candidate_boundary:
  assumes "against_boundary d g key"
  shows "candidate d g key = Some (player_x g, player_y g)"
  using assms by (auto simp: against_boundary_def candidate_def Let_def)

lemma well_formed_cell:
  assumes "well_formed d g"
  shows "\<exists>v. cell_at d (player_x g) (player_y g) = Some v"
proof -
  from assms have y: "0 \<le> player_y g" "player_y g < int (length (grid d))"
    and x: "0 \<le> player_x g" "player_x g < width d"
    and rows: "\<forall>row \<in> set (grid d). int (length row) = width d"
    by (simp_all add: well_formed_def)
  from y have "grid d ! nat (player_y g) \<in> set (grid d)" by simp
  with rows have "int (length (grid d ! nat (player_y g))) = width d" by blast
  with x y show ?thesis by (simp add: cell_at_def js_index_def)
qed

section \<open>The local movement handler: boundaries and walls\<close>

text \<open>
  Claim C3, as stated, fails: with the player at \<open>x = 0\<close> on a floor cell the key \<open>a\<close>
  gives the clamped candidate, which is the player's own cell, and the handler counts it as
  a move: \<open>moves\<close> goes from 0 to 1 and the tiles around the player are revealed.
\<close>

theorem boundary_move_counts_counterexample:
  "well_formed floor5 west5 \<and> player_x west5 = 0 \<and> against_boundary floor5 west5 ''a'' \<and>
   handleKeyPress (Some floor5) (Some west5) ''a'' = Returned (Some west5_pressed) \<and>
   moves west5 = 0 \<and> moves west5_pressed = 1"
  by code_simp

text \<open>
  Claim C3, amended. In a well-formed game a key press against a boundary does not throw
  and leaves \<open>player_x\<close> and \<open>player_y\<close> unchanged. The handler treats the clamped
  candidate, the player's own cell, like any other candidate: when that cell is not a floor
  cell the state is unchanged; when it is a floor cell \<open>moves\<close> becomes \<open>moves + 1\<close> as
  the addition of doubles gives it, which is \<open>moves\<close> incremented by one whenever
  \<open>-2^53 \<le> moves < 2^53\<close>, the 3 by 3 neighbourhood of the player is revealed, and no
  other field changes.
\<close>

theorem boundary_move:
  assumes "well_formed d g" and "against_boundary d g key"
  shows "\<exists>g'. handleKeyPress (Some d) (Some g) key = Returned (Some g') \<and>
           player_x g' = player_x g \<and> player_y g' = player_y g \<and>
           (if cell_at d (player_x g) (player_y g) = Some 0
            then g' = g\<lparr>discovered_tiles := discovered_tiles g',
                         moves := js_add (moves g) 1\<rparr> \<and>
                 (- (2 ^ 53) \<le> moves g \<and> moves g < 2 ^ 53 \<longrightarrow> moves g' = moves g + 1) \<and>
                 (\<forall>x y. discovered (discovered_tiles g') x y \<longleftrightarrow>
                    discovered (discovered_tiles g) x y \<or>
                    (\<exists>dx \<in> {- 1, 0, 1}. \<exists>dy \<in> {- 1, 0, 1}.
                       x = player_x g + dx \<and> y = player_y g + dy \<and>
                       0 \<le> y \<and> y < height d \<and> 0 \<le> x \<and> x < width d))
            else g' = g)"
proof -
  note cand = candidate_boundary [OF assms(2)]
  from well_formed_cell [OF assms(1)] obtain v where
    v: "cell_at d (player_x g) (player_y g) = Some v" by blast
  show ?thesis
  proof (cases "v = 0")
    case False
    from handleKeyPress_blocked [OF cand v False] v False show ?thesis by simp
  next
    case True
    with v have fl: "cell_at d (player_x g) (player_y g) = Some 0" by simp
    from assms(1) have "height d \<le> int (length (discovered_tiles g))"
      by (simp add: well_formed_def)
    from reveal_dy_total [OF this, of "player_x g" "player_y g" "- 1"] obtain t' where
      t': "reveal_dy d (player_x g) (player_y g) (- 1) (discovered_tiles g) = Inr t'" by blast
    have "handleKeyPress (Some d) (Some g) key =
            Returned (Some (g\<lparr>player_x := player_x g, player_y := player_y g,
                               discovered_tiles := t', moves := js_add (moves g) 1\<rparr>))"
      by (simp add: handleKeyPress_floor [OF cand fl] t')
    moreover have "\<forall>x y. discovered t' x y \<longleftrightarrow>
                    discovered (discovered_tiles g) x y \<or>
                    (\<exists>dx \<in> {- 1, 0, 1}. \<exists>dy \<in> {- 1, 0, 1}.
                       x = player_x g + dx \<and> y = player_y g + dy \<and>
                       0 \<le> y \<and> y < height d \<and> 0 \<le> x \<and> x < width d)"
      using reveal_around [OF t'] by blast
    moreover have "- (2 ^ 53) \<le> moves g \<and> moves g < 2 ^ 53 \<longrightarrow>
                     js_add (moves g) 1 = moves g + 1"
      using js_add_one [of "moves g"] by blast
    ultimately show ?thesis using fl by simp
  qed
qed

theorem boundary_move_witness:
  "well_formed floor5 west5 \<and> against_boundary floor5 west5 ''a'' \<and>
   cell_at floor5 (player_x west5) (player_y west5) = Some 0 \<and>
   handleKeyPress (Some floor5) (Some west5) ''a'' = Returned (Some west5_pressed) \<and>
   player_x west5_pressed = player_x west5 \<and> player_y west5_pressed = player_y west5 \<and>
   moves west5 = 0 \<and> moves west5_pressed = moves west5 + 1 \<and>
   west5_pressed =
     west5\<lparr>discovered_tiles := discovered_tiles west5_pressed,
            moves := js_add (moves west5) 1\<rparr>"
proof -
  have wf: "well_formed floor5 west5" by code_simp
  have ab: "against_boundary floor5 west5 ''a''" by code_simp
  have fl: "cell_at floor5 (player_x west5) (player_y west5) = Some 0" by code_simp
  have r: "handleKeyPress (Some floor5) (Some west5) ''a'' = Returned (Some west5_pressed)"
    by code_simp
  have m: "moves west5 = 0" by code_simp
  from boundary_move [OF wf ab] r fl m
  have "player_x west5_pressed = player_x west5 \<and> player_y west5_pressed = player_y west5 \<and>
        moves west5_pressed = moves west5 + 1 \<and>
        west5_pressed =
          west5\<lparr>discovered_tiles := discovered_tiles west5_pressed,
                 moves := js_add (moves west5) 1\<rparr>"
    by auto
  with wf ab fl r m show ?thesis by simp
qed

text \<open>
  Claim C4. When the candidate cell of a key press is a wall (grid value 1) the handler
  returns the state it was given: \<open>player_x\<close>, \<open>player_y\<close> and \<open>moves\<close> are unchanged.
\<close>

theorem wall_blocks_move:
  assumes "candidate d g key = Some (nx, ny)" and "cell_at d nx ny = Some 1"
  shows "\<exists>g'. handleKeyPress (Some d) (Some g) key = Returned (Some g') \<and> g' = g \<and>
           player_x g' = player_x g \<and> player_y g' = player_y g \<and> moves g' = moves g"
  using handleKeyPress_blocked [OF assms] by simp

theorem wall_blocks_move_witness:
  "candidate wall5 fog5 ''d'' = Some (3, 2) \<and> cell_at wall5 3 2 = Some 1 \<and>
   handleKeyPress (Some wall5) (Some fog5) ''d'' = Returned (Some fog5)"
proof -
  have c: "candidate wall5 fog5 ''d'' = Some (3, 2)" by code_simp
  have w: "cell_at wall5 3 2 = Some 1" by code_simp
  from wall_blocks_move [OF c w] c w show ?thesis by simp
qed


section \<open>The remote movement handler\<close>

text \<open>
  Claim C5. With no game state, or with a game state whose \<open>in_combat\<close> is true,
  \<open>movePlayer\<close> sends no request and changes nothing, for every direction and whatever
  the server would answer; the same holds for every key that the key handler maps to a
  movement.
\<close>

theorem combat_gates_movement:
  assumes "gameState c = None \<or> (\<exists>g. gameState c = Some g \<and> in_combat g)"
  shows "after (movePlayer r c direction) = c \<and> sent (movePlayer r c direction) = [] \<and>
         (toLowerCase key \<in> {''w'', ''arrowup'', ''s'', ''arrowdown'',
                               ''a'', ''arrowleft'', ''d'', ''arrowright''} \<longrightarrow>
            after (handleKeyPress_remote r c key) = c \<and>
            sent (handleKeyPress_remote r c key) = [])"
proof -
  have mv: "movePlayer r c dir = no_effect c" for dir
    using assms by (auto simp: movePlayer_def)
  have "handleKeyPress_remote r c key = no_effect c"
    if "toLowerCase key \<in> {''w'', ''arrowup'', ''s'', ''arrowdown'',
                               ''a'', ''arrowleft'', ''d'', ''arrowright''}"
    using that mv
    by (auto simp: handleKeyPress_remote_def Let_def split: option.splits)
  with mv show ?thesis by (simp add: no_effect_def)
qed

theorem combat_gates_movement_witness:
  "gameState fighting = Some (fog5\<lparr>in_combat := True\<rparr>) \<and>
   in_combat (fog5\<lparr>in_combat := True\<rparr>) \<and>
   after (movePlayer defeat_server fighting ''up'') = fighting \<and>
   sent (movePlayer defeat_server fighting ''up'') = [] \<and>
   sent (handleKeyPress_remote defeat_server fighting ''ArrowUp'') = []"
proof -
  have g: "gameState fighting = Some (fog5\<lparr>in_combat := True\<rparr>)"
    by (simp add: fighting_def)
  have i: "in_combat (fog5\<lparr>in_combat := True\<rparr>)" by simp
  have k: "toLowerCase ''ArrowUp'' = ''arrowup''" by code_simp
  from g i have h: "gameState fighting = None \<or> (\<exists>g. gameState fighting = Some g \<and> in_combat g)"
    by blast
  from combat_gates_movement [OF h, of defeat_server "''up''" "''ArrowUp''"] g i
  show ?thesis by (simp add: k)
qed

section \<open>The combat handler\<close>

text \<open>
  Claim C6. When the client is in combat and the answer to a combat action has
  \<open>combat_ended\<close> true, the client fetches the game and the game state it then holds is
  the fetched one as a whole; when the fetch fails it holds the state it had, with no field
  patched.
\<close>

theorem combat_end_refreshes:
  assumes "gameState c = Some g" and "in_combat g"
    and "post_combat r (game_id g) actionType = Some result" and "combat_ended result"
  shows "gameState (after (performCombatAction r c actionType)) =
           (case get_game r (game_id g) of
              None \<Rightarrow> Some g
            | Some updatedState \<Rightarrow> Some updatedState) \<and>
         sent (performCombatAction r c actionType) =
           [Post_combat (game_id g) actionType, Get_game (game_id g)]"
  using assms
  by (simp add: performCombatAction_def Let_def defeat_line_def split: option.splits)

theorem combat_end_refreshes_witness:
  "gameState fighting = Some (fog5\<lparr>in_combat := True\<rparr>) \<and>
   map_option combat_ended (post_combat defeat_server ''g1'' ''attack'') = Some True \<and>
   get_game defeat_server ''g1'' = Some (fog5\<lparr>player_hp := 0\<rparr>) \<and>
   gameState (after (performCombatAction defeat_server fighting ''attack''))
     = Some (fog5\<lparr>player_hp := 0\<rparr>)"
proof -
  have g: "gameState fighting = Some (fog5\<lparr>in_combat := True\<rparr>)"
    by (simp add: fighting_def)
  have i: "in_combat (fog5\<lparr>in_combat := True\<rparr>)" by simp
  have p: "post_combat defeat_server (game_id (fog5\<lparr>in_combat := True\<rparr>)) ''attack'' =
      Some \<lparr>combat_log = [''You were slain''], combat_ended = True,
            result_player_hp = 0, player_defeated = True\<rparr>"
    by (simp add: defeat_server_def)
  have e: "combat_ended \<lparr>combat_log = [''You were slain''], combat_ended = True,
            result_player_hp = 0, player_defeated = True\<rparr>" by simp
  have f: "get_game defeat_server (game_id (fog5\<lparr>in_combat := True\<rparr>)) = Some (fog5\<lparr>player_hp := 0\<rparr>)"
    by (simp add: defeat_server_def)
  from combat_end_refreshes [OF g i p e] f g
  show ?thesis by (simp add: defeat_server_def)
qed

text \<open>
  Claim C7. When the client is in combat and the answer to a combat action has
  \<open>combat_ended\<close> false, the game state it then holds is the one it had with \<open>player_hp\<close>
  set to the \<open>player_hp\<close> of the answer: every other field is unchanged, and no game is
  fetched.
\<close>

theorem combat_goes_on_patches_hp:
  assumes "gameState c = Some g" and "in_combat g"
    and "post_combat r (game_id g) actionType = Some result" and "\<not> combat_ended result"
  shows "gameState (after (performCombatAction r c actionType)) =
           Some (g\<lparr>player_hp := result_player_hp result\<rparr>) \<and>
         sent (performCombatAction r c actionType) = [Post_combat (game_id g) actionType]"
  using assms by (simp add: performCombatAction_def Let_def defeat_line_def)

theorem combat_goes_on_patches_hp_witness:
  "gameState fighting = Some (fog5\<lparr>in_combat := True\<rparr>) \<and>
   map_option combat_ended (post_combat hit_server ''g1'' ''attack'') = Some False \<and>
   gameState (after (performCombatAction hit_server fighting ''attack''))
     = Some (fog5\<lparr>in_combat := True, player_hp := 42\<rparr>)"
proof -
  have g: "gameState fighting = Some (fog5\<lparr>in_combat := True\<rparr>)"
    by (simp add: fighting_def)
  have i: "in_combat (fog5\<lparr>in_combat := True\<rparr>)" by simp
  have p: "post_combat hit_server (game_id (fog5\<lparr>in_combat := True\<rparr>)) ''attack'' =
      Some \<lparr>combat_log = [''You hit''], combat_ended = False,
            result_player_hp = 42, player_defeated = False\<rparr>"
    by (simp add: hit_server_def)
  have e: "\<not> combat_ended \<lparr>combat_log = [''You hit''], combat_ended = False,
            result_player_hp = 42, player_defeated = False\<rparr>" by simp
  from combat_goes_on_patches_hp [OF g i p e] g
  show ?thesis by (simp add: hit_server_def)
qed

text \<open>
  Claim C9, as stated, fails for a transport failure that is an answer with malformed
  data: \<open>movePlayer\<close> checks no answer. An accepted move that reports a combat without an
  enemy replaces the game state by the fetched one, the player now at \<open>x = 3\<close>, and
  then throws outside the \<open>try\<close> block; a refusal without a message appends
  \<open>undefined\<close> to the combat log. Neither is reported on the console.
\<close>

theorem malformed_answer_applied_counterexample:
  "gameState exploring = Some fog5 \<and> in_combat fog5 = False \<and> combatLog exploring = [] \<and>
   post_move_player malformed_server ''g1'' ''right'' =
     Some \<lparr>success = True, message = None, result_in_combat = True, combat_enemy = None\<rparr> \<and>
   gameState (after (movePlayer malformed_server exploring ''right'')) = Some moved5 \<and>
   player_x fog5 = 2 \<and> player_x moved5 = 3 \<and>
   uncaught (movePlayer malformed_server exploring ''right'') = Some TypeError \<and>
   console_error (movePlayer malformed_server exploring ''right'') = [] \<and>
   post_move_player mute_server ''g1'' ''right'' =
     Some \<lparr>success = False, message = None, result_in_combat = False, combat_enemy = None\<rparr> \<and>
   combatLog (after (movePlayer mute_server exploring ''right'')) = [None] \<and>
   console_error (movePlayer mute_server exploring ''right'') = []"
  by code_simp

text \<open>
  Claim C9, amended. When the move request is rejected, or the move is accepted and the
  fetch of the game that follows it is rejected, \<open>movePlayer\<close> leaves the whole state
  of the client as it was, the game state and the combat log included, and reports the
  error on the console.
\<close>

theorem failed_move_keeps_state:
  assumes "gameState c = Some g" and "\<not> in_combat g"
    and "post_move_player r (game_id g) direction = None \<or>
         (\<exists>result. post_move_player r (game_id g) direction = Some result \<and> success result \<and>
                    get_game r (game_id g) = None)"
  shows "after (movePlayer r c direction) = c \<and>
         gameState (after (movePlayer r c direction)) = Some g \<and>
         combatLog (after (movePlayer r c direction)) = combatLog c \<and>
         console_error (movePlayer r c direction) = [''Error moving player:'']"
  using assms by (auto simp: movePlayer_def)

theorem failed_move_keeps_state_witness:
  "gameState exploring = Some fog5 \<and> in_combat fog5 = False \<and>
   post_move_player dead_server ''g1'' ''up'' = None \<and>
   after (movePlayer dead_server exploring ''up'') = exploring \<and>
   console_error (movePlayer dead_server exploring ''up'') = [''Error moving player:'']"
proof -
  have g: "gameState exploring = Some fog5" by (simp add: exploring_def)
  have i: "\<not> in_combat fog5" by (simp add: fog5_def)
  have p: "post_move_player dead_server (game_id fog5) ''up'' = None"
    by (simp add: dead_server_def)
  then have h: "post_move_player dead_server (game_id fog5) ''up'' = None \<or>
         (\<exists>result. post_move_player dead_server (game_id fog5) ''up'' = Some result \<and>
                    success result \<and> get_game dead_server (game_id fog5) = None)" by blast
  from failed_move_keeps_state [OF g i h] g i
  show ?thesis by (simp add: dead_server_def)
qed

lemma movePlayer_sent:
  "gameState c = Some g \<Longrightarrow> (sent (movePlayer r c direction) = []) = in_combat g"
  by (simp add: movePlayer_def no_effect_def Let_def split: option.splits)

lemma performCombatAction_sent:
  "gameState c = Some g \<Longrightarrow> (sent (performCombatAction r c actionType) = []) = (\<not> in_combat g)"
  by (simp add: performCombatAction_def no_effect_def Let_def split: option.splits)

text \<open>
  Claim C8, as stated, fails. The server answers an attack with \<open>player_defeated\<close> true.
  With the combat ended and the fetched game out of combat, the next \<open>movePlayer\<close> sends
  its request; with the combat going on, the next \<open>performCombatAction\<close> sends its
  request.
\<close>

theorem defeat_not_terminal_counterexample:
  "map_option player_defeated (post_combat defeat_server ''g1'' ''attack'') = Some True \<and>
   sent (performCombatAction defeat_server fighting ''attack'') =
     [Post_combat ''g1'' ''attack'', Get_game ''g1''] \<and>
   sent (movePlayer defeat_server
           (after (performCombatAction defeat_server fighting ''attack'')) ''up'') =
     [Post_move_player ''g1'' ''up'', Get_game ''g1''] \<and>
   map_option player_defeated (post_combat undead_server ''g1'' ''attack'') = Some True \<and>
   sent (performCombatAction undead_server
           (after (performCombatAction undead_server fighting ''attack'')) ''attack'') =
     [Post_combat ''g1'' ''attack'']"
  by code_simp

text \<open>
  Claim C8, amended. An answer with \<open>player_defeated\<close> true to a client in combat
  changes the game state and the combat log of the client and nothing else. The game state
  it then holds is the fetched one (combat ended and the fetch succeeds), the one it had
  (combat ended and the fetch fails) or the one it had with the new \<open>player_hp\<close> (combat
  going on). The combat log gets the lines of the answer and then the line
  ``Game Over! Return to menu to start again.'', except when the fetch fails, which ends
  the handler before that line. A later movement is refused without a request exactly when
  the game state held has \<open>in_combat\<close> true, a later combat action exactly when it has
  \<open>in_combat\<close> false.
\<close>

theorem defeat_only_logs:
  assumes "gameState c = Some g" and "in_combat g"
    and "post_combat r (game_id g) actionType = Some result" and "player_defeated result"
  shows "let fetch_failed = (combat_ended result \<and> get_game r (game_id g) = None);
             held = (if combat_ended result
                     then (case get_game r (game_id g) of
                             None \<Rightarrow> g
                           | Some updatedState \<Rightarrow> updatedState)
                     else g\<lparr>player_hp := result_player_hp result\<rparr>);
             c' = after (performCombatAction r c actionType)
         in c' = c\<lparr>gameState := Some held,
                   combatLog := combatLog c @ map Some (combat_log result) @
                     (if fetch_failed then []
                      else [Some ''Game Over! Return to menu to start again.''])\<rparr> \<and>
            (\<forall>r' direction. (sent (movePlayer r' c' direction) = []) = in_combat held) \<and>
            (\<forall>r' action. (sent (performCombatAction r' c' action) = []) = (\<not> in_combat held))"
proof -
  define held where "held = (if combat_ended result
                     then (case get_game r (game_id g) of
                             None \<Rightarrow> g
                           | Some updatedState \<Rightarrow> updatedState)
                     else g\<lparr>player_hp := result_player_hp result\<rparr>)"
  have keep: "c\<lparr>gameState := Some g\<rparr> = c" using assms(1) by simp
  have a: "after (performCombatAction r c actionType) =
           c\<lparr>gameState := Some held,
             combatLog := combatLog c @ map Some (combat_log result) @
               (if combat_ended result \<and> get_game r (game_id g) = None then []
                else [Some ''Game Over! Return to menu to start again.''])\<rparr>"
  proof (cases "combat_ended result")
    case False
    with assms show ?thesis
      by (simp add: performCombatAction_def Let_def defeat_line_def held_def)
  next
    case True
    show ?thesis
    proof (cases "get_game r (game_id g)")
      case None
      with True assms keep show ?thesis
        by (simp add: performCombatAction_def Let_def held_def)
    next
      case (Some u)
      with True assms show ?thesis
        by (simp add: performCombatAction_def Let_def defeat_line_def held_def)
    qed
  qed
  then have "gameState (after (performCombatAction r c actionType)) = Some held" by simp
  from movePlayer_sent [OF this] performCombatAction_sent [OF this] a
  show ?thesis unfolding Let_def held_def [symmetric] by blast
qed

theorem defeat_only_logs_witness:
  "gameState fighting = Some (fog5\<lparr>in_combat := True\<rparr>) \<and>
   map_option player_defeated (post_combat defeat_server ''g1'' ''attack'') = Some True \<and>
   combatLog (after (performCombatAction defeat_server fighting ''attack'')) =
     [Some ''You were slain'', Some ''Game Over! Return to menu to start again.''] \<and>
   gameState (after (performCombatAction defeat_server fighting ''attack'')) =
     Some (fog5\<lparr>player_hp := 0\<rparr>) \<and>
   in_combat (fog5\<lparr>player_hp := 0\<rparr>) = False \<and>
   (sent (movePlayer defeat_server
            (after (performCombatAction defeat_server fighting ''attack'')) ''up'') = []) = False \<and>
   get_game half_dead_server ''g1'' = None \<and>
   combatLog (after (performCombatAction half_dead_server fighting ''attack'')) =
     [Some ''You were slain''] \<and>
   gameState (after (performCombatAction half_dead_server fighting ''attack'')) =
     Some (fog5\<lparr>in_combat := True\<rparr>) \<and>
   (sent (movePlayer defeat_server
            (after (performCombatAction half_dead_server fighting ''attack'')) ''up'') = []) = True"
proof -
  let ?res = "\<lparr>combat_log = [''You were slain''], combat_ended = True,
            result_player_hp = 0, player_defeated = True\<rparr>"
  have g: "gameState fighting = Some (fog5\<lparr>in_combat := True\<rparr>)"
    by (simp add: fighting_def)
  have i: "in_combat (fog5\<lparr>in_combat := True\<rparr>)" by simp
  have p: "post_combat defeat_server (game_id (fog5\<lparr>in_combat := True\<rparr>)) ''attack'' = Some ?res"
    by (simp add: defeat_server_def)
  have p': "post_combat half_dead_server (game_id (fog5\<lparr>in_combat := True\<rparr>)) ''attack'' = Some ?res"
    by (simp add: half_dead_server_def defeat_server_def)
  have e: "player_defeated ?res" by simp
  have f: "get_game defeat_server (game_id (fog5\<lparr>in_combat := True\<rparr>)) = Some (fog5\<lparr>player_hp := 0\<rparr>)"
    by (simp add: defeat_server_def)
  have f': "get_game half_dead_server (game_id (fog5\<lparr>in_combat := True\<rparr>)) = None"
    by (simp add: half_dead_server_def)
  have f'': "get_game half_dead_server ''g1'' = None"
    by (simp add: half_dead_server_def)
  have n: "in_combat (fog5\<lparr>player_hp := 0\<rparr>) = False" by (simp add: fog5_def)
  note th = defeat_only_logs [OF g i p e, unfolded Let_def f]
  note th' = defeat_only_logs [OF g i p' e, unfolded Let_def f']
  from th [THEN conjunct1] have a: "after (performCombatAction defeat_server fighting ''attack'') =
      fighting\<lparr>gameState := Some (fog5\<lparr>player_hp := 0\<rparr>),
        combatLog := combatLog fighting @ [Some ''You were slain''] @
                     [Some ''Game Over! Return to menu to start again.'']\<rparr>"
    by simp
  from th' [THEN conjunct1] have a': "after (performCombatAction half_dead_server fighting ''attack'') =
      fighting\<lparr>gameState := Some (fog5\<lparr>in_combat := True\<rparr>),
        combatLog := combatLog fighting @ [Some ''You were slain'']\<rparr>"
    by simp
  from th [THEN conjunct2] have "(sent (movePlayer defeat_server
            (after (performCombatAction defeat_server fighting ''attack'')) ''up'') = [])
          = in_combat (fog5\<lparr>player_hp := 0\<rparr>)"
    by simp
  with n have m: "(sent (movePlayer defeat_server
            (after (performCombatAction defeat_server fighting ''attack'')) ''up'') = []) = False"
    by simp
  from th' [THEN conjunct2] have m': "(sent (movePlayer defeat_server
            (after (performCombatAction half_dead_server fighting ''attack'')) ''up'') = []) = True"
    by simp
  have d: "map_option player_defeated (post_combat defeat_server ''g1'' ''attack'') = Some True"
    by (simp add: defeat_server_def)
  have l: "combatLog (after (performCombatAction defeat_server fighting ''attack'')) =
     [Some ''You were slain'', Some ''Game Over! Return to menu to start again.'']"
    unfolding a by (simp add: fighting_def)
  have l': "combatLog (after (performCombatAction half_dead_server fighting ''attack'')) =
     [Some ''You were slain'']"
    unfolding a' by (simp add: fighting_def)
  have s: "gameState (after (performCombatAction defeat_server fighting ''attack'')) =
     Some (fog5\<lparr>player_hp := 0\<rparr>)"
    unfolding a by simp
  have s': "gameState (after (performCombatAction half_dead_server fighting ''attack'')) =
     Some (fog5\<lparr>in_combat := True\<rparr>)"
    unfolding a' by simp
  from g d l s n m f'' l' s' m' show ?thesis by blast
qed

section \<open>Consumed entities and the glyph of a cell\<close>

lemma find_filter_absorb:
  "find (\<lambda>t. P t \<and> Q t) (filter Q xs) = find (\<lambda>t. P t \<and> Q t) xs"
  by (induction xs) auto

lemma find_holds: "find P xs = Some x \<Longrightarrow> P x"
  by (induction xs) (auto split: if_splits)

lemma lookups_without_consumed:
  "treasure_at (without_consumed d g) g x y = treasure_at d g x y"
  "chest_at (without_consumed d g) g x y = chest_at d g x y"
  "key_at (without_consumed d g) g x y = key_at d g x y"
  "enemy_at (without_consumed d g) x y = enemy_at d x y"
  "trap_at (without_consumed d g) x y = trap_at d x y"
  "door_at (without_consumed d g) x y = door_at d x y"
  using find_filter_absorb [of "\<lambda>t. e_x t = x \<and> e_y t = y" "\<lambda>t. e_id t \<notin> set (collected_treasures g)" "treasures d"]
    find_filter_absorb [of "\<lambda>t. e_x t = x \<and> e_y t = y" "\<lambda>t. e_id t \<notin> set (opened_chests g)" "chests d"]
    find_filter_absorb [of "\<lambda>t. e_x t = x \<and> e_y t = y" "\<lambda>t. e_id t \<notin> set (collected_keys g)" "keys d"]
  by (simp_all add: treasure_at_def chest_at_def key_at_def enemy_at_def trap_at_def door_at_def
        without_consumed_def conj_assoc)

lemma render_cell_without_consumed:
  "render_cell heroes (without_consumed d g) g cell x y = render_cell heroes d g cell x y"
  unfolding render_cell_def lookups_without_consumed ..

text \<open>
  Claim C10. The treasure, the chest and the key that \<open>renderDungeon\<close> looks up for a
  cell never have their identifier in \<open>collected_treasures\<close>, \<open>opened_chests\<close> and
  \<open>collected_keys\<close>, and the emoji of the cell, discovered or not, is the one the cell
  has in the dungeon without the consumed entities: a consumed entity never decides the
  glyph.
\<close>

theorem consumed_entities_invisible:
  "(\<forall>t. treasure_at d g x y = Some t \<longrightarrow> e_id t \<notin> set (collected_treasures g)) \<and>
   (\<forall>c. chest_at d g x y = Some c \<longrightarrow> e_id c \<notin> set (opened_chests g)) \<and>
   (\<forall>k. key_at d g x y = Some k \<longrightarrow> e_id k \<notin> set (collected_keys g)) \<and>
   render_cell heroes d g cell x y = render_cell heroes (without_consumed d g) g cell x y \<and>
   renderDungeon heroes (Some d) (Some g) =
     renderDungeon heroes (Some (without_consumed d g)) (Some g)"
proof -
  have "grid (without_consumed d g) = grid d" by (simp add: without_consumed_def)
  then have "renderDungeon heroes (Some d) (Some g) =
     renderDungeon heroes (Some (without_consumed d g)) (Some g)"
    by (simp add: renderDungeon_def render_cell_without_consumed)
  then show ?thesis
    by (auto simp: render_cell_without_consumed treasure_at_def chest_at_def key_at_def
             dest: find_holds)
qed

theorem consumed_entities_invisible_witness:
  "treasures loot5 = [gold32, potion32] \<and> e_id gold32 \<in> set (collected_treasures looted5) \<and>
   treasure_at loot5 looted5 3 2 = Some potion32 \<and>
   e_id potion32 \<notin> set (collected_treasures looted5) \<and>
   render_cell (\<lambda>c. None) loot5 looted5 0 3 2 = Inr ''TEST TUBE'' \<and>
   render_cell (\<lambda>c. None) (without_consumed loot5 looted5) looted5 0 3 2 = Inr ''TEST TUBE''"
proof -
  have t: "treasure_at loot5 looted5 3 2 = Some potion32" by code_simp
  have r: "render_cell (\<lambda>c. None) loot5 looted5 0 3 2 = Inr ''TEST TUBE''" by code_simp
  have l: "treasures loot5 = [gold32, potion32]" by code_simp
  have c: "e_id gold32 \<in> set (collected_treasures looted5)" by code_simp
  from consumed_entities_invisible [of loot5 looted5 3 2 "\<lambda>c. None" 0] t r
  have "e_id potion32 \<notin> set (collected_treasures looted5) \<and>
        render_cell (\<lambda>c. None) (without_consumed loot5 looted5) looted5 0 3 2 = Inr ''TEST TUBE''"
    by simp
  with t r l c show ?thesis by simp
qed

end
